theory Spec2Isabelle
  imports Complex_Main
begin

section \<open>The configuration of the Action Chunking Transformer policy\<close>

text \<open>
  A shallow embedding of \<^verbatim>\<open>lerobot/common/policies/act/configuration_act.py\<close>:
  the dataclass \<^verbatim>\<open>ActionChunkingTransformerConfig\<close>, its field defaults and its
  \<^verbatim>\<open>__post_init__\<close> validation. Python exceptions are values of a sum type: a
  construction returns \<open>Inl\<close> of the exception raised or \<open>Inr\<close> of the object.
\<close>

subsection \<open>Python values\<close>

text \<open>
  \<^verbatim>\<open>camera_names\<close> is annotated \<^verbatim>\<open>tuple[str]\<close> and defaults to the tuple
  \<^verbatim>\<open>("top",)\<close>, while \<^verbatim>\<open>__post_init__\<close> compares it with the list \<^verbatim>\<open>["top"]\<close>.
  A dataclass does not enforce annotations, so a caller may pass either kind of sequence;
  the model keeps the two apart.
\<close>

datatype py_seq = PyTuple "string list" | PyList "string list"

fun items :: "py_seq \<Rightarrow> string list" where
  "items (PyTuple xs) = xs"
| "items (PyList xs) = xs"

text \<open>
  Python's \<^verbatim>\<open>!=\<close> on sequences: two lists, or two tuples, differ when their elements
  do; a tuple and a list are never equal, whatever they hold.
\<close>

fun py_ne :: "py_seq \<Rightarrow> py_seq \<Rightarrow> bool" where
  "py_ne (PyList xs) (PyList ys) = (xs \<noteq> ys)"
| "py_ne (PyTuple xs) (PyTuple ys) = (xs \<noteq> ys)"
| "py_ne (PyList xs) (PyTuple ys) = True"
| "py_ne (PyTuple xs) (PyList ys) = True"

text \<open>\<^verbatim>\<open>len(s)\<close>, and \<^verbatim>\<open>len(set(s))\<close>: the number of distinct elements.\<close>

definition py_len :: "py_seq \<Rightarrow> nat" where
  "py_len s = length (items s)"

definition py_len_set :: "py_seq \<Rightarrow> nat" where
  "py_len_set s = length (remdups (items s))"

text \<open>\<^verbatim>\<open>s.startswith(p)\<close>.\<close>

fun startswith :: "string \<Rightarrow> string \<Rightarrow> bool" where
  "startswith s [] = True"
| "startswith [] (p # ps) = False"
| "startswith (c # cs) (p # ps) = (c = p \<and> startswith cs ps)"

subsection \<open>Exceptions\<close>

text \<open>
  The message of an exception is an f-string. It is kept as its parts, in order: the
  literal text, and the value of each replacement field \<^verbatim>\<open>{...}\<close>.
\<close>

datatype py_value = VStr string | VInt int | VSeq py_seq

datatype part = Lit string | Fmt py_value

datatype error = ValueError "part list" | NotImplementedError "part list"

text \<open>The specification's names for the two kinds of failure.\<close>

datatype error_kind = InvalidValue | Unimplemented

fun kind :: "error \<Rightarrow> error_kind" where
  "kind (ValueError m) = InvalidValue"
| "kind (NotImplementedError m) = Unimplemented"

subsection \<open>The dataclass\<close>

text \<open>
  One field per dataclass field, in the order of the source. Integers are Python's
  unbounded \<^verbatim>\<open>int\<close>. The \<^verbatim>\<open>float\<close> fields are only stored, never computed with; each
  holds the number its literal denotes. The dictionaries are stored in insertion order.
  \<^verbatim>\<open>replace_final_stride_with_dilation\<close> is annotated \<^verbatim>\<open>int\<close> in the source but holds the
  boolean \<^verbatim>\<open>False\<close>.
\<close>

record ActionChunkingTransformerConfig =
  state_dim :: int
  action_dim :: int
  n_obs_steps :: int
  camera_names :: py_seq
  chunk_size :: int
  n_action_steps :: int
  input_shapes :: "(string \<times> int list) list"
  output_shapes :: "(string \<times> int list) list"
  normalize_input_modes :: "(string \<times> string) list"
  unnormalize_output_modes :: "(string \<times> string) list"
  vision_backbone :: string
  use_pretrained_backbone :: bool
  replace_final_stride_with_dilation :: bool
  pre_norm :: bool
  d_model :: int
  n_heads :: int
  dim_feedforward :: int
  feedforward_activation :: string
  n_encoder_layers :: int
  n_decoder_layers :: int
  use_vae :: bool
  latent_dim :: int
  n_vae_encoder_layers :: int
  use_temporal_aggregation :: bool
  dropout :: real
  kl_weight :: real
  batch_size :: int
  lr :: real
  lr_backbone :: real
  weight_decay :: real
  grad_clip_norm :: real
  utd :: int

text \<open>The field defaults of the class body (lines 69 to 135).\<close>

definition defaults :: ActionChunkingTransformerConfig where
  "defaults =
    \<lparr> state_dim = 14,
      action_dim = 14,
      n_obs_steps = 1,
      camera_names = PyTuple [''top''],
      chunk_size = 100,
      n_action_steps = 100,
      input_shapes =
        [(''observation.images.top'', [3, 480, 640]), (''observation.state'', [14])],
      output_shapes = [(''action'', [14])],
      normalize_input_modes =
        [(''observation.image'', ''mean_std''), (''observation.state'', ''mean_std'')],
      unnormalize_output_modes = [(''action'', ''mean_std'')],
      vision_backbone = ''resnet18'',
      use_pretrained_backbone = True,
      replace_final_stride_with_dilation = False,
      pre_norm = False,
      d_model = 512,
      n_heads = 8,
      dim_feedforward = 3200,
      feedforward_activation = ''relu'',
      n_encoder_layers = 4,
      n_decoder_layers = 1,
      use_vae = True,
      latent_dim = 32,
      n_vae_encoder_layers = 4,
      use_temporal_aggregation = False,
      dropout = 1 / 10,
      kl_weight = 10,
      batch_size = 8,
      lr = 1 / 100000,
      lr_backbone = 1 / 100000,
      weight_decay = 1 / 10000,
      grad_clip_norm = 10,
      utd = 1 \<rparr>"

subsection \<open>Validation\<close>

text \<open>The exception each \<^verbatim>\<open>raise\<close> of \<^verbatim>\<open>__post_init__\<close> builds, in source order.\<close>

definition backbone_error :: "ActionChunkingTransformerConfig \<Rightarrow> error" where
  "backbone_error self = ValueError
     [Lit ''`vision_backbone` must be one of the ResNet variants. Got '',
      Fmt (VStr (vision_backbone self)), Lit ''.'']"

definition aggregation_error :: "ActionChunkingTransformerConfig \<Rightarrow> error" where
  "aggregation_error self = NotImplementedError
     [Lit ''Temporal aggregation is not yet implemented.'']"

definition action_steps_error :: "ActionChunkingTransformerConfig \<Rightarrow> error" where
  "action_steps_error self = ValueError
     [Lit ''The chunk size is the upper bound for the number of action steps per model invocation. Got '',
      Fmt (VInt (n_action_steps self)), Lit '' for `n_action_steps` and '',
      Fmt (VInt (chunk_size self)), Lit '' for `chunk_size`.'']"

definition obs_steps_error :: "ActionChunkingTransformerConfig \<Rightarrow> error" where
  "obs_steps_error self = ValueError
     [Lit ''Multiple observation steps not handled yet. Got `nobs_steps='',
      Fmt (VInt (n_obs_steps self)), Lit ''`'']"

definition camera_error :: "ActionChunkingTransformerConfig \<Rightarrow> error" where
  "camera_error self = ValueError
     [Lit ''For now, `camera_names` can only be ['top']. Got '',
      Fmt (VSeq (camera_names self)), Lit ''.'']"

definition repeated_error :: "ActionChunkingTransformerConfig \<Rightarrow> error" where
  "repeated_error self = ValueError
     [Lit ''`camera_names` should not have any repeated entries. Got '',
      Fmt (VSeq (camera_names self)), Lit ''.'']"

text \<open>\<^verbatim>\<open>__post_init__\<close> (lines 137 to 157): six tests in sequence, each raising.\<close>

definition post_init :: "ActionChunkingTransformerConfig \<Rightarrow> error + unit" where
  "post_init self =
    (if \<not> startswith (vision_backbone self) ''resnet'' then Inl (backbone_error self)
     else if use_temporal_aggregation self then Inl (aggregation_error self)
     else if n_action_steps self > chunk_size self then Inl (action_steps_error self)
     else if n_obs_steps self \<noteq> 1 then Inl (obs_steps_error self)
     else if py_ne (camera_names self) (PyList [''top'']) then Inl (camera_error self)
     else if py_len_set (camera_names self) \<noteq> py_len (camera_names self)
       then Inl (repeated_error self)
     else Inr ())"

text \<open>
  The constructor the \<^verbatim>\<open>@dataclass\<close> decorator generates: it stores every field as
  given, then runs \<^verbatim>\<open>__post_init__\<close>; the caller gets the object only when that returns.
  The argument holds the value of every field, a default where the caller overrides
  nothing: a call with overrides is \<open>init (defaults\<lparr>field := value\<rparr>)\<close>.
\<close>

definition init :: "ActionChunkingTransformerConfig \<Rightarrow> error + ActionChunkingTransformerConfig" where
  "init self = (case post_init self of Inl e \<Rightarrow> Inl e | Inr u \<Rightarrow> Inr self)"


subsection \<open>The validation rules of the specification\<close>

text \<open>
  Section 4.1 of the specification lists six invariants, in order, and the error each
  one fails with; these definitions follow its words. Rule 5 asks for the single-element
  sequence \<^verbatim>\<open>["top"]\<close> exactly, a list.
\<close>

definition backbone_ok :: "ActionChunkingTransformerConfig \<Rightarrow> bool" where
  "backbone_ok c = startswith (vision_backbone c) ''resnet''"

definition aggregation_ok :: "ActionChunkingTransformerConfig \<Rightarrow> bool" where
  "aggregation_ok c = (use_temporal_aggregation c = False)"

definition action_steps_ok :: "ActionChunkingTransformerConfig \<Rightarrow> bool" where
  "action_steps_ok c = (n_action_steps c \<le> chunk_size c)"

definition obs_steps_ok :: "ActionChunkingTransformerConfig \<Rightarrow> bool" where
  "obs_steps_ok c = (n_obs_steps c = 1)"

definition camera_ok :: "ActionChunkingTransformerConfig \<Rightarrow> bool" where
  "camera_ok c = (camera_names c = PyList [''top''])"

definition unique_ok :: "ActionChunkingTransformerConfig \<Rightarrow> bool" where
  "unique_ok c = distinct (items (camera_names c))"

type_synonym rule =
  "(ActionChunkingTransformerConfig \<Rightarrow> bool) \<times> (ActionChunkingTransformerConfig \<Rightarrow> error)"

definition validation_rules :: "rule list" where
  "validation_rules =
    [(backbone_ok, backbone_error),
     (aggregation_ok, aggregation_error),
     (action_steps_ok, action_steps_error),
     (obs_steps_ok, obs_steps_error),
     (camera_ok, camera_error),
     (unique_ok, repeated_error)]"

text \<open>Run the rules in order; the first invariant that does not hold gives the error.\<close>

fun first_failure :: "rule list \<Rightarrow> ActionChunkingTransformerConfig \<Rightarrow> error + unit" where
  "first_failure [] c = Inr ()"
| "first_failure ((ok, err) # rules) c =
     (if ok c then first_failure rules c else Inl (err c))"

text \<open>The defaults with \<^verbatim>\<open>camera_names=["top"]\<close>, the list the validation asks for.\<close>

definition top_list_fields :: ActionChunkingTransformerConfig where
  "top_list_fields = defaults\<lparr>camera_names := PyList [''top'']\<rparr>"

section \<open>Properties\<close>

subsection \<open>Auxiliary facts\<close>

lemma py_ne_list_iff: "py_ne s (PyList xs) \<longleftrightarrow> s \<noteq> PyList xs"
  by (cases s) simp_all

lemma py_len_set_eq_iff: "py_len_set s = py_len s \<longleftrightarrow> distinct (items s)"
  unfolding py_len_set_def py_len_def
  using length_remdups_eq [of "items s"] remdups_id_iff_distinct [of "items s"] by simp

lemmas ok_defs =
  backbone_ok_def aggregation_ok_def action_steps_ok_def obs_steps_ok_def camera_ok_def
  unique_ok_def

lemmas error_defs =
  backbone_error_def aggregation_error_def action_steps_error_def obs_steps_error_def
  camera_error_def repeated_error_def

text \<open>The validation as a cascade over the invariants; the sixth test never fires.\<close>

lemma post_init_cascade:
  "post_init c =
    (if \<not> backbone_ok c then Inl (backbone_error c)
     else if \<not> aggregation_ok c then Inl (aggregation_error c)
     else if \<not> action_steps_ok c then Inl (action_steps_error c)
     else if \<not> obs_steps_ok c then Inl (obs_steps_error c)
     else if \<not> camera_ok c then Inl (camera_error c)
     else Inr ())"
  unfolding post_init_def ok_defs
  by (auto simp: py_ne_list_iff py_len_set_def py_len_def)

lemma init_cascade:
  "init c =
    (if \<not> backbone_ok c then Inl (backbone_error c)
     else if \<not> aggregation_ok c then Inl (aggregation_error c)
     else if \<not> action_steps_ok c then Inl (action_steps_error c)
     else if \<not> obs_steps_ok c then Inl (obs_steps_error c)
     else if \<not> camera_ok c then Inl (camera_error c)
     else Inr c)"
  unfolding init_def post_init_cascade by simp

lemma init_Inr_iff:
  "init a = Inr c \<longleftrightarrow>
     c = a \<and> backbone_ok a \<and> aggregation_ok a \<and> action_steps_ok a \<and> obs_steps_ok a \<and> camera_ok a"
  unfolding init_cascade by auto

lemma defaults_ok:
  "backbone_ok defaults" "aggregation_ok defaults" "action_steps_ok defaults"
  "obs_steps_ok defaults" "\<not> camera_ok defaults"
  by (simp_all add: ok_defs defaults_def)

lemma top_list_fields_ok:
  "backbone_ok top_list_fields" "aggregation_ok top_list_fields"
  "action_steps_ok top_list_fields" "obs_steps_ok top_list_fields"
  "camera_ok top_list_fields" "unique_ok top_list_fields"
  by (simp_all add: ok_defs defaults_def top_list_fields_def)

subsection \<open>The claims\<close>

text \<open>
  Claim C1: default construction, with no field overridden, succeeds and gives an object
  with \<^verbatim>\<open>state_dim = 14\<close>, \<^verbatim>\<open>action_dim = 14\<close>, \<^verbatim>\<open>chunk_size = 100\<close>,
  \<^verbatim>\<open>n_action_steps = 100\<close>, \<^verbatim>\<open>vision_backbone = "resnet18"\<close> and \<^verbatim>\<open>use_vae = true\<close>.

  The defaults hold these six values, but the construction does not succeed: the default
  \<^verbatim>\<open>camera_names\<close> is the tuple \<^verbatim>\<open>("top",)\<close>, the fifth test compares it with the list
  \<^verbatim>\<open>["top"]\<close>, and a tuple differs from every list, so \<^verbatim>\<open>__post_init__\<close> raises
  \<^verbatim>\<open>ValueError\<close>. With the list \<^verbatim>\<open>["top"]\<close> in place of the tuple, and every other default
  kept, the construction succeeds.
\<close>

theorem default_construction_fails:
  "init defaults =
     Inl (ValueError [Lit ''For now, `camera_names` can only be ['top']. Got '',
                      Fmt (VSeq (PyTuple [''top''])), Lit ''.''])
   \<and> state_dim defaults = 14 \<and> action_dim defaults = 14 \<and> chunk_size defaults = 100
   \<and> n_action_steps defaults = 100 \<and> vision_backbone defaults = ''resnet18''
   \<and> use_vae defaults = True
   \<and> init (defaults\<lparr>camera_names := PyList [''top'']\<rparr>) =
       Inr (defaults\<lparr>camera_names := PyList [''top'']\<rparr>)"
  unfolding init_cascade
  by (simp add: ok_defs camera_error_def defaults_def)

text \<open>
  Claim C2, as amended: a construction with \<^verbatim>\<open>use_temporal_aggregation = true\<close> fails for
  every assignment of the other fields. The failure is the \<open>Unimplemented\<close> error
  whenever \<^verbatim>\<open>vision_backbone\<close> starts with \<^verbatim>\<open>"resnet"\<close>; when it does not, the backbone
  test comes first and the failure is its \<open>InvalidValue\<close> error.
\<close>

theorem temporal_aggregation_fails:
  assumes "use_temporal_aggregation a"
  shows "(startswith (vision_backbone a) ''resnet'' \<longrightarrow>
           init a = Inl (aggregation_error a) \<and> kind (aggregation_error a) = Unimplemented)
       \<and> (\<not> startswith (vision_backbone a) ''resnet'' \<longrightarrow>
           init a = Inl (backbone_error a) \<and> kind (backbone_error a) = InvalidValue)"
  using assms unfolding init_cascade
  by (simp add: backbone_ok_def aggregation_ok_def backbone_error_def aggregation_error_def)

theorem temporal_aggregation_fails_witness:
  "use_temporal_aggregation (defaults\<lparr>use_temporal_aggregation := True\<rparr>)
   \<and> init (defaults\<lparr>use_temporal_aggregation := True\<rparr>) =
       Inl (NotImplementedError [Lit ''Temporal aggregation is not yet implemented.''])
   \<and> use_temporal_aggregation
       (defaults\<lparr>vision_backbone := ''vit_base'', use_temporal_aggregation := True\<rparr>)
   \<and> init (defaults\<lparr>vision_backbone := ''vit_base'', use_temporal_aggregation := True\<rparr>) =
       Inl (ValueError [Lit ''`vision_backbone` must be one of the ResNet variants. Got '',
                        Fmt (VStr ''vit_base''), Lit ''.''])"
  using temporal_aggregation_fails [of "defaults\<lparr>use_temporal_aggregation := True\<rparr>"]
    temporal_aggregation_fails
      [of "defaults\<lparr>vision_backbone := ''vit_base'', use_temporal_aggregation := True\<rparr>"]
  by (simp add: defaults_def backbone_error_def aggregation_error_def)

text \<open>
  The claim as written (the \<open>Unimplemented\<close> error and never another kind, whatever
  the other fields) fails where the backbone name is \<^verbatim>\<open>"vit_base"\<close>.
\<close>

theorem temporal_aggregation_counterexample:
  "use_temporal_aggregation
     (top_list_fields\<lparr>vision_backbone := ''vit_base'', use_temporal_aggregation := True\<rparr>)
   \<and> init (top_list_fields\<lparr>vision_backbone := ''vit_base'', use_temporal_aggregation := True\<rparr>) =
       Inl (ValueError [Lit ''`vision_backbone` must be one of the ResNet variants. Got '',
                        Fmt (VStr ''vit_base''), Lit ''.''])
   \<and> kind (ValueError [Lit ''`vision_backbone` must be one of the ResNet variants. Got '',
                        Fmt (VStr ''vit_base''), Lit ''.'']) \<noteq> Unimplemented"
  unfolding init_cascade
  by (simp add: ok_defs backbone_error_def defaults_def top_list_fields_def)

text \<open>
  Claim C3: the validation runs the six checks in the order (1) \<^verbatim>\<open>vision_backbone\<close> starts
  with \<^verbatim>\<open>"resnet"\<close>, (2) \<^verbatim>\<open>use_temporal_aggregation\<close> is false, (3)
  \<^verbatim>\<open>n_action_steps <= chunk_size\<close>, (4) \<^verbatim>\<open>n_obs_steps == 1\<close>, (5) \<^verbatim>\<open>camera_names\<close> equals
  \<^verbatim>\<open>["top"]\<close> exactly, (6) \<^verbatim>\<open>camera_names\<close> has no duplicate entries; the error raised is
  the one of the earliest violated check, also when several are violated. The second
  conjunct gives the kind of error of each rule.
\<close>

theorem validation_order:
  "post_init c = first_failure validation_rules c
   \<and> map (\<lambda>(ok, err). kind (err c)) validation_rules =
       [InvalidValue, Unimplemented, InvalidValue, InvalidValue, InvalidValue, InvalidValue]"
  unfolding post_init_def validation_rules_def
  by (simp add: ok_defs error_defs py_ne_list_iff py_len_set_eq_iff)

text \<open>
  The order at work: starting from an input that violates the first five checks, each
  line repairs the earliest violation, and the error moves to the next one.
\<close>

theorem validation_order_witness:
  "post_init (defaults\<lparr>n_obs_steps := 2, n_action_steps := 150,
      vision_backbone := ''vit_base'', use_temporal_aggregation := True\<rparr>) =
     Inl (ValueError [Lit ''`vision_backbone` must be one of the ResNet variants. Got '',
                      Fmt (VStr ''vit_base''), Lit ''.''])
   \<and> post_init (defaults\<lparr>n_obs_steps := 2, n_action_steps := 150,
        use_temporal_aggregation := True\<rparr>) =
       Inl (NotImplementedError [Lit ''Temporal aggregation is not yet implemented.''])
   \<and> post_init (defaults\<lparr>n_obs_steps := 2, n_action_steps := 150\<rparr>) =
       Inl (ValueError
         [Lit ''The chunk size is the upper bound for the number of action steps per model invocation. Got '',
          Fmt (VInt 150), Lit '' for `n_action_steps` and '',
          Fmt (VInt 100), Lit '' for `chunk_size`.''])
   \<and> post_init (defaults\<lparr>n_obs_steps := 2, camera_names := PyList [''top'', ''top'']\<rparr>) =
       Inl (ValueError [Lit ''Multiple observation steps not handled yet. Got `nobs_steps='',
                        Fmt (VInt 2), Lit ''`''])
   \<and> post_init (defaults\<lparr>camera_names := PyList [''top'', ''top'']\<rparr>) =
       Inl (ValueError [Lit ''For now, `camera_names` can only be ['top']. Got '',
                        Fmt (VSeq (PyList [''top'', ''top''])), Lit ''.''])
   \<and> post_init (defaults\<lparr>camera_names := PyList [''top'']\<rparr>) = Inr ()"
  using validation_order [of "defaults\<lparr>n_obs_steps := 2, n_action_steps := 150,
      vision_backbone := ''vit_base'', use_temporal_aggregation := True\<rparr>"]
    validation_order [of "defaults\<lparr>n_obs_steps := 2, n_action_steps := 150,
        use_temporal_aggregation := True\<rparr>"]
    validation_order [of "defaults\<lparr>n_obs_steps := 2, n_action_steps := 150\<rparr>"]
    validation_order [of "defaults\<lparr>n_obs_steps := 2, camera_names := PyList [''top'', ''top'']\<rparr>"]
    validation_order [of "defaults\<lparr>camera_names := PyList [''top'', ''top'']\<rparr>"]
    validation_order [of "defaults\<lparr>camera_names := PyList [''top'']\<rparr>"]
  by (simp add: validation_rules_def ok_defs error_defs defaults_def)

text \<open>
  Claim C4: for every combination of field values that satisfies the six invariants,
  construction succeeds and returns the object that holds exactly the supplied values:
  the result is the record of the arguments itself, so every field, validated or not,
  reads back as given.
\<close>

theorem valid_fields_round_trip:
  assumes "backbone_ok a" and "aggregation_ok a" and "action_steps_ok a"
    and "obs_steps_ok a" and "camera_ok a" and "unique_ok a"
  shows "init a = Inr a"
  using assms unfolding init_cascade by simp

theorem valid_fields_round_trip_witness:
  "backbone_ok (top_list_fields\<lparr>state_dim := 7, n_action_steps := 50, d_model := 256\<rparr>)
   \<and> aggregation_ok (top_list_fields\<lparr>state_dim := 7, n_action_steps := 50, d_model := 256\<rparr>)
   \<and> action_steps_ok (top_list_fields\<lparr>state_dim := 7, n_action_steps := 50, d_model := 256\<rparr>)
   \<and> obs_steps_ok (top_list_fields\<lparr>state_dim := 7, n_action_steps := 50, d_model := 256\<rparr>)
   \<and> camera_ok (top_list_fields\<lparr>state_dim := 7, n_action_steps := 50, d_model := 256\<rparr>)
   \<and> unique_ok (top_list_fields\<lparr>state_dim := 7, n_action_steps := 50, d_model := 256\<rparr>)
   \<and> init (top_list_fields\<lparr>state_dim := 7, n_action_steps := 50, d_model := 256\<rparr>) =
       Inr (top_list_fields\<lparr>state_dim := 7, n_action_steps := 50, d_model := 256\<rparr>)"
  using valid_fields_round_trip
      [of "top_list_fields\<lparr>state_dim := 7, n_action_steps := 50, d_model := 256\<rparr>"]
  by (simp add: ok_defs defaults_def top_list_fields_def)

text \<open>
  Claim C5, as amended: a construction with \<^verbatim>\<open>n_action_steps > chunk_size\<close> fails for
  every assignment of the other fields; the failure is the \<open>InvalidValue\<close> error that
  reports both values whenever \<^verbatim>\<open>vision_backbone\<close> starts with \<^verbatim>\<open>"resnet"\<close> and
  \<^verbatim>\<open>use_temporal_aggregation\<close> is false (otherwise an earlier check raises its own error).
  A construction with \<^verbatim>\<open>n_action_steps == chunk_size\<close>, and one with
  \<^verbatim>\<open>n_action_steps < chunk_size\<close>, succeeds when the other checks pass.
\<close>

theorem action_steps_bound:
  "(chunk_size a < n_action_steps a \<longrightarrow>
      (\<forall>c. init a \<noteq> Inr c)
      \<and> (startswith (vision_backbone a) ''resnet'' \<and> \<not> use_temporal_aggregation a \<longrightarrow>
           init a = Inl (action_steps_error a)
           \<and> kind (action_steps_error a) = InvalidValue))
   \<and> (n_action_steps a = chunk_size a \<and> backbone_ok a \<and> aggregation_ok a
        \<and> obs_steps_ok a \<and> camera_ok a \<longrightarrow> init a = Inr a)
   \<and> (n_action_steps a < chunk_size a \<and> backbone_ok a \<and> aggregation_ok a
        \<and> obs_steps_ok a \<and> camera_ok a \<longrightarrow> init a = Inr a)"
  unfolding init_cascade
  by (simp add: backbone_ok_def aggregation_ok_def action_steps_ok_def action_steps_error_def)

theorem action_steps_bound_witness:
  "chunk_size (top_list_fields\<lparr>n_action_steps := 150\<rparr>)
     < n_action_steps (top_list_fields\<lparr>n_action_steps := 150\<rparr>)
   \<and> init (top_list_fields\<lparr>n_action_steps := 150\<rparr>) =
       Inl (ValueError
         [Lit ''The chunk size is the upper bound for the number of action steps per model invocation. Got '',
          Fmt (VInt 150), Lit '' for `n_action_steps` and '',
          Fmt (VInt 100), Lit '' for `chunk_size`.''])
   \<and> n_action_steps top_list_fields = chunk_size top_list_fields
   \<and> init top_list_fields = Inr top_list_fields
   \<and> n_action_steps (top_list_fields\<lparr>n_action_steps := 50\<rparr>)
       < chunk_size (top_list_fields\<lparr>n_action_steps := 50\<rparr>)
   \<and> init (top_list_fields\<lparr>n_action_steps := 50\<rparr>) = Inr (top_list_fields\<lparr>n_action_steps := 50\<rparr>)"
  using action_steps_bound [of "top_list_fields\<lparr>n_action_steps := 150\<rparr>"]
    action_steps_bound [of top_list_fields]
    action_steps_bound [of "top_list_fields\<lparr>n_action_steps := 50\<rparr>"]
  by (simp add: ok_defs action_steps_error_def defaults_def top_list_fields_def)

text \<open>
  The claim as written (always \<open>InvalidValue\<close>, whatever the other fields) fails where
  \<^verbatim>\<open>use_temporal_aggregation\<close> is true: the second check raises before the third.
\<close>

theorem action_steps_bound_counterexample:
  "chunk_size (top_list_fields\<lparr>n_action_steps := 150, use_temporal_aggregation := True\<rparr>)
     < n_action_steps (top_list_fields\<lparr>n_action_steps := 150, use_temporal_aggregation := True\<rparr>)
   \<and> init (top_list_fields\<lparr>n_action_steps := 150, use_temporal_aggregation := True\<rparr>) =
       Inl (NotImplementedError [Lit ''Temporal aggregation is not yet implemented.''])
   \<and> kind (NotImplementedError [Lit ''Temporal aggregation is not yet implemented.''])
       \<noteq> InvalidValue"
  unfolding init_cascade
  by (simp add: ok_defs aggregation_error_def defaults_def top_list_fields_def)

text \<open>
  Claim C6: with the other fields passing their checks (the defaults do), a construction
  with \<^verbatim>\<open>camera_names = ["top", "top"]\<close> fails with an \<open>InvalidValue\<close> error, one with
  \<^verbatim>\<open>camera_names = ["left"]\<close> fails the exact-match check with an \<open>InvalidValue\<close> error,
  and one with \<^verbatim>\<open>camera_names = ["top"]\<close> succeeds. Both failures are the error of the
  exact-match check.
\<close>

theorem camera_names_examples:
  assumes "backbone_ok a" and "aggregation_ok a" and "action_steps_ok a" and "obs_steps_ok a"
  shows "init (a\<lparr>camera_names := PyList [''top'', ''top'']\<rparr>) =
           Inl (camera_error (a\<lparr>camera_names := PyList [''top'', ''top'']\<rparr>))
       \<and> init (a\<lparr>camera_names := PyList [''left'']\<rparr>) =
           Inl (camera_error (a\<lparr>camera_names := PyList [''left'']\<rparr>))
       \<and> kind (camera_error (a\<lparr>camera_names := PyList [''top'', ''top'']\<rparr>)) = InvalidValue
       \<and> kind (camera_error (a\<lparr>camera_names := PyList [''left'']\<rparr>)) = InvalidValue
       \<and> init (a\<lparr>camera_names := PyList [''top'']\<rparr>) = Inr (a\<lparr>camera_names := PyList [''top'']\<rparr>)"
  using assms unfolding init_cascade
  by (simp add: ok_defs camera_error_def)

theorem camera_names_examples_witness:
  "backbone_ok defaults \<and> aggregation_ok defaults \<and> action_steps_ok defaults
   \<and> obs_steps_ok defaults
   \<and> init (defaults\<lparr>camera_names := PyList [''top'', ''top'']\<rparr>) =
       Inl (ValueError [Lit ''For now, `camera_names` can only be ['top']. Got '',
                        Fmt (VSeq (PyList [''top'', ''top''])), Lit ''.''])
   \<and> init (defaults\<lparr>camera_names := PyList [''left'']\<rparr>) =
       Inl (ValueError [Lit ''For now, `camera_names` can only be ['top']. Got '',
                        Fmt (VSeq (PyList [''left''])), Lit ''.''])
   \<and> init (defaults\<lparr>camera_names := PyList [''top'']\<rparr>) =
       Inr (defaults\<lparr>camera_names := PyList [''top'']\<rparr>)"
  using camera_names_examples [of defaults] defaults_ok
  by (simp add: camera_error_def)

text \<open>
  Claim C7, as amended: every successfully constructed config satisfies
  \<^verbatim>\<open>n_action_steps <= chunk_size\<close> and holds \<^verbatim>\<open>state_dim\<close>, \<^verbatim>\<open>action_dim\<close>,
  \<^verbatim>\<open>chunk_size\<close> and \<^verbatim>\<open>n_action_steps\<close> as supplied. Their sign is not validated: when
  the other checks pass, construction succeeds for any integers \<^verbatim>\<open>state_dim\<close> and
  \<^verbatim>\<open>action_dim\<close> and any \<^verbatim>\<open>n_action_steps <= chunk_size\<close>, zero and negative ones
  included.
\<close>

theorem dims_not_validated:
  "(init a = Inr c \<longrightarrow>
      n_action_steps c \<le> chunk_size c \<and> state_dim c = state_dim a
      \<and> action_dim c = action_dim a \<and> chunk_size c = chunk_size a
      \<and> n_action_steps c = n_action_steps a)
   \<and> (backbone_ok a \<and> aggregation_ok a \<and> obs_steps_ok a \<and> camera_ok a \<and> ns \<le> cs \<longrightarrow>
        init (a\<lparr>state_dim := sd, action_dim := ad, chunk_size := cs, n_action_steps := ns\<rparr>) =
          Inr (a\<lparr>state_dim := sd, action_dim := ad, chunk_size := cs, n_action_steps := ns\<rparr>))"
  unfolding init_cascade
  by (auto simp: ok_defs)

theorem dims_not_validated_witness:
  "init top_list_fields = Inr top_list_fields
   \<and> n_action_steps top_list_fields \<le> chunk_size top_list_fields
   \<and> backbone_ok top_list_fields \<and> aggregation_ok top_list_fields
   \<and> obs_steps_ok top_list_fields \<and> camera_ok top_list_fields \<and> (-2::int) \<le> -1
   \<and> init (top_list_fields\<lparr>state_dim := 0, action_dim := -3, chunk_size := -1, n_action_steps := -2\<rparr>) =
       Inr (top_list_fields\<lparr>state_dim := 0, action_dim := -3, chunk_size := -1, n_action_steps := -2\<rparr>)"
  using dims_not_validated
      [where a = top_list_fields and c = top_list_fields and sd = 0 and ad = "-3"
        and cs = "-1" and ns = "-2"]
    top_list_fields_ok
  by (simp add: init_Inr_iff action_steps_ok_def)

text \<open>
  The claim as written (construction fails when one of the four is zero or negative)
  fails at \<^verbatim>\<open>state_dim = 0\<close>, \<^verbatim>\<open>action_dim = -3\<close>, \<^verbatim>\<open>chunk_size = -1\<close>,
  \<^verbatim>\<open>n_action_steps = -2\<close>.
\<close>

theorem dims_positive_counterexample:
  "init (top_list_fields\<lparr>state_dim := 0, action_dim := -3, chunk_size := -1, n_action_steps := -2\<rparr>) =
     Inr (top_list_fields\<lparr>state_dim := 0, action_dim := -3, chunk_size := -1, n_action_steps := -2\<rparr>)
   \<and> \<not> 0 < state_dim (top_list_fields\<lparr>state_dim := 0, action_dim := -3, chunk_size := -1, n_action_steps := -2\<rparr>)
   \<and> \<not> 0 < action_dim (top_list_fields\<lparr>state_dim := 0, action_dim := -3, chunk_size := -1, n_action_steps := -2\<rparr>)
   \<and> \<not> 0 < chunk_size (top_list_fields\<lparr>state_dim := 0, action_dim := -3, chunk_size := -1, n_action_steps := -2\<rparr>)
   \<and> \<not> 0 < n_action_steps (top_list_fields\<lparr>state_dim := 0, action_dim := -3, chunk_size := -1, n_action_steps := -2\<rparr>)"
  unfolding init_cascade
  by (simp add: ok_defs defaults_def top_list_fields_def)

text \<open>
  Claim C8: for every \<^verbatim>\<open>vision_backbone\<close> that does not start with \<^verbatim>\<open>"resnet"\<close>,
  construction fails with an \<open>InvalidValue\<close> error whose message names the offending
  value, whatever the other fields hold.
\<close>

theorem backbone_prefix_required:
  assumes "\<not> startswith (vision_backbone a) ''resnet''"
  shows "init a =
           Inl (ValueError [Lit ''`vision_backbone` must be one of the ResNet variants. Got '',
                            Fmt (VStr (vision_backbone a)), Lit ''.''])
       \<and> kind (ValueError [Lit ''`vision_backbone` must be one of the ResNet variants. Got '',
                            Fmt (VStr (vision_backbone a)), Lit ''.'']) = InvalidValue"
  using assms unfolding init_cascade
  by (simp add: backbone_ok_def backbone_error_def)

theorem backbone_prefix_required_witness:
  "\<not> startswith
       (vision_backbone (defaults\<lparr>n_obs_steps := 2, n_action_steps := 150,
          vision_backbone := ''vit_base'', use_temporal_aggregation := True\<rparr>)) ''resnet''
   \<and> init (defaults\<lparr>n_obs_steps := 2, n_action_steps := 150,
        vision_backbone := ''vit_base'', use_temporal_aggregation := True\<rparr>) =
       Inl (ValueError [Lit ''`vision_backbone` must be one of the ResNet variants. Got '',
                        Fmt (VStr ''vit_base''), Lit ''.''])"
  using backbone_prefix_required [of "defaults\<lparr>n_obs_steps := 2, n_action_steps := 150,
          vision_backbone := ''vit_base'', use_temporal_aggregation := True\<rparr>"]
  by simp

text \<open>
  Claim C9: the branch that reports repeated camera names is unreachable. No input makes
  the validation, or the construction, raise the "repeated entries" error: a value of
  \<^verbatim>\<open>camera_names\<close> either fails the exact-match test before it, or is the list
  \<^verbatim>\<open>["top"]\<close>, which has as many distinct elements as elements.
\<close>

theorem repeated_entries_unreachable:
  "post_init a \<noteq> Inl (repeated_error b) \<and> init a \<noteq> Inl (repeated_error b)
   \<and> (py_ne (camera_names a) (PyList [''top''])
        \<or> py_len_set (camera_names a) = py_len (camera_names a))"
proof -
  have "post_init a \<noteq> Inl (repeated_error b)"
    unfolding post_init_cascade by (simp add: error_defs)
  moreover have "init a \<noteq> Inl (repeated_error b)"
    unfolding init_cascade by (simp add: error_defs)
  moreover have "py_ne (camera_names a) (PyList [''top''])
        \<or> py_len_set (camera_names a) = py_len (camera_names a)"
    by (auto simp: py_ne_list_iff py_len_set_def py_len_def)
  ultimately show ?thesis by blast
qed

text \<open>
  Claim C10: for every tuple value of \<^verbatim>\<open>camera_names\<close>, the declared default
  \<^verbatim>\<open>("top",)\<close> included, construction fails with the \<open>InvalidValue\<close> error of the
  exact-match check: so it is with the other fields at their defaults, and with any other
  fields that pass the four checks before it. Whatever the other fields, a construction
  with a tuple never succeeds, and a construction that succeeds has the list \<^verbatim>\<open>["top"]\<close>
  as its \<^verbatim>\<open>camera_names\<close>.
\<close>

theorem tuple_camera_names_rejected:
  "init (defaults\<lparr>camera_names := PyTuple xs\<rparr>) =
     Inl (ValueError [Lit ''For now, `camera_names` can only be ['top']. Got '',
                      Fmt (VSeq (PyTuple xs)), Lit ''.''])
   \<and> kind (ValueError [Lit ''For now, `camera_names` can only be ['top']. Got '',
                      Fmt (VSeq (PyTuple xs)), Lit ''.'']) = InvalidValue
   \<and> (backbone_ok a \<and> aggregation_ok a \<and> action_steps_ok a \<and> obs_steps_ok a \<longrightarrow>
        init (a\<lparr>camera_names := PyTuple xs\<rparr>) =
          Inl (camera_error (a\<lparr>camera_names := PyTuple xs\<rparr>)))
   \<and> (\<forall>c. init (a\<lparr>camera_names := PyTuple xs\<rparr>) \<noteq> Inr c)
   \<and> (init a = Inr c \<longrightarrow> camera_names a = PyList [''top''])"
  unfolding init_cascade
  by (auto simp: ok_defs camera_error_def defaults_def)

theorem tuple_camera_names_rejected_witness:
  "backbone_ok defaults \<and> aggregation_ok defaults \<and> action_steps_ok defaults
   \<and> obs_steps_ok defaults
   \<and> init (defaults\<lparr>camera_names := PyTuple [''top'']\<rparr>) =
       Inl (ValueError [Lit ''For now, `camera_names` can only be ['top']. Got '',
                      Fmt (VSeq (PyTuple [''top''])), Lit ''.''])
   \<and> init top_list_fields = Inr top_list_fields
   \<and> camera_names top_list_fields = PyList [''top'']"
  using tuple_camera_names_rejected
      [where xs = "[''top'']" and a = defaults and c = top_list_fields]
    tuple_camera_names_rejected
      [where xs = "[''top'']" and a = top_list_fields and c = top_list_fields]
    defaults_ok top_list_fields_ok
  by (simp add: init_Inr_iff)

end
